theory Spec2Isabelle
  imports Complex_Main
begin

section \<open>Python values, exceptions and the log\<close>

text \<open>
  The values that travel through the server are JSON values as Python holds them:
  the argument mapping of an invocation, the query parameters of an outbound request
  and the body a backend answers with.
\<close>

datatype pyval =
    PNone
  | PBool bool
  | PInt int
  | PFloat real
  | PStr string
  | PList "pyval list"
  | PDict "(string \<times> pyval) list"

text \<open>Python's truth test (\<^verbatim>\<open>if x:\<close>) on such a value.\<close>

fun truthy :: "pyval \<Rightarrow> bool" where
  "truthy PNone = False"
| "truthy (PBool b) = b"
| "truthy (PInt n) = (n \<noteq> 0)"
| "truthy (PFloat r) = (r \<noteq> 0)"
| "truthy (PStr s) = (s \<noteq> [])"
| "truthy (PList xs) = (xs \<noteq> [])"
| "truthy (PDict kvs) = (kvs \<noteq> [])"

text \<open>
  The truth test on a value of type \<^verbatim>\<open>Optional[str]\<close>: \<^verbatim>\<open>None\<close> and the empty
  string are false.
\<close>

fun present :: "string option \<Rightarrow> bool" where
  "present None = False"
| "present (Some s) = (s \<noteq> [])"

text \<open>How an f-string renders a value of type \<^verbatim>\<open>Optional[str]\<close>.\<close>

fun fmt_opt :: "string option \<Rightarrow> string" where
  "fmt_opt None = ''None''"
| "fmt_opt (Some s) = s"

text \<open>
  Exceptions carry their message. \<open>RequestException\<close> stands for
  \<^verbatim>\<open>requests.exceptions.RequestException\<close> and every subclass of it (connection
  errors, timeouts, the \<^verbatim>\<open>HTTPError\<close> of \<^verbatim>\<open>raise_for_status\<close>); \<open>OtherException\<close>
  for any \<^verbatim>\<open>Exception\<close> of a class not named here.
\<close>

datatype py_exception =
    RuntimeError string
  | TypeError string
  | ValueError string
  | RequestException string
  | OtherException string

fun str_exc :: "py_exception \<Rightarrow> string" where
  "str_exc (RuntimeError m) = m"
| "str_exc (TypeError m) = m"
| "str_exc (ValueError m) = m"
| "str_exc (RequestException m) = m"
| "str_exc (OtherException m) = m"

fun is_request_exception :: "py_exception \<Rightarrow> bool" where
  "is_request_exception (RequestException m) = True"
| "is_request_exception e = False"

datatype level = DEBUG | INFO | WARNING | ERROR

type_synonym log_record = "level \<times> string"

section \<open>tools/base.py: the access token\<close>

text \<open>
  \<^verbatim>\<open>auth_token_context.get()\<close> raises \<^verbatim>\<open>LookupError\<close> when the context variable was
  never set: the first argument is \<open>None\<close> then, and \<open>Some token\<close> otherwise. The second
  argument is \<^verbatim>\<open>os.getenv("WALMART_API_KEY")\<close>. The result is the token or the
  exception raised, with the records written to the log.
\<close>

definition no_token :: py_exception where
  "no_token = RuntimeError ''No Walmart auth token found in context or environment''"

definition get_auth_token ::
  "string option \<Rightarrow> string option \<Rightarrow> (py_exception + string) \<times> log_record list" where
  "get_auth_token ctx env =
     (case ctx of
        Some token \<Rightarrow>
          if token = [] then
            (case env of
               None \<Rightarrow> Inl no_token
             | Some t \<Rightarrow> if t = [] then Inl no_token else Inr t,
             [(DEBUG, ''Using token from environment: '' @ fmt_opt env)])
          else (Inr token, [])
      | None \<Rightarrow>
          (case env of
             None \<Rightarrow> Inl no_token
           | Some t \<Rightarrow> if t = [] then Inl no_token else Inr t,
           []))"

definition get_walmart_client ::
  "string option \<Rightarrow> string option \<Rightarrow> string option \<times> log_record list" where
  "get_walmart_client ctx env =
     (case get_auth_token ctx env of
        (Inr auth_token, l) \<Rightarrow> (Some auth_token, l)
      | (Inl (RuntimeError m), l) \<Rightarrow>
          (None, l @ [(WARNING, ''Failed to get Walmart auth token: '' @ m)])
      | (Inl e, l) \<Rightarrow>
          (None, l @ [(ERROR, ''Failed to initialize Walmart client: '' @ str_exc e)]))"

section \<open>The outbound call\<close>

text \<open>
  What \<^verbatim>\<open>requests.get(url, headers=headers, params=params)\<close> is given. Python
  dictionaries keep insertion order, and no key is inserted twice below, so headers and
  query parameters are association lists.
\<close>

record request =
  url :: string
  headers :: "(string \<times> string) list"
  params :: "(string \<times> pyval) list"

text \<open>
  The remote API is not part of the program: it is a parameter of the model.
  \<^verbatim>\<open>requests.get\<close> raises (a connection error, a timeout) or returns a response. A
  response has its HTTP status code, the text \<^verbatim>\<open>requests\<close> composes for an
  \<^verbatim>\<open>HTTPError\<close> from the status, the reason phrase and the URL, and what
  \<^verbatim>\<open>response.json()\<close> does: raise, or return the decoded body.
\<close>

record response =
  status_code :: int
  http_error_msg :: string
  json :: "py_exception + pyval"

type_synonym backend = "request \<Rightarrow> py_exception + response"

text \<open>
  \<^verbatim>\<open>response.raise_for_status()\<close> of the \<^verbatim>\<open>requests\<close> library raises \<^verbatim>\<open>HTTPError\<close>, a
  \<^verbatim>\<open>RequestException\<close>, for a status from 400 to 599 (client and server errors) and
  returns for every other status.
\<close>

definition raise_for_status :: "response \<Rightarrow> py_exception option" where
  "raise_for_status r =
     (if 400 \<le> status_code r \<and> status_code r < 600
      then Some (RequestException (http_error_msg r))
      else None)"


text \<open>
  The body of the \<^verbatim>\<open>try\<close> block shared by the three operations: its value, and
  whether control reached the "Received ... response" log line, which stands between
  \<^verbatim>\<open>raise_for_status()\<close> and \<^verbatim>\<open>json()\<close>.
\<close>

definition attempt :: "backend \<Rightarrow> request \<Rightarrow> py_exception + pyval" where
  "attempt b req =
     (case b req of
        Inl e \<Rightarrow> Inl e
      | Inr r \<Rightarrow> (case raise_for_status r of Some e \<Rightarrow> Inl e | None \<Rightarrow> json r))"

definition received :: "backend \<Rightarrow> request \<Rightarrow> bool" where
  "received b req =
     (case b req of
        Inl e \<Rightarrow> False
      | Inr r \<Rightarrow> (case raise_for_status r of Some e \<Rightarrow> False | None \<Rightarrow> True))"

text \<open>
  What one run of an operation leaves behind: the dictionary it returns, the outbound
  calls it made, in order, and the records it logged.
\<close>

record outcome =
  envelope :: pyval
  calls :: "request list"
  logs :: "log_record list"

definition error_dict :: "string \<Rightarrow> pyval" where
  "error_dict msg = PDict [(''error'', PStr msg)]"

definition auth_headers :: "string \<Rightarrow> (string \<times> string) list" where
  "auth_headers token =
     [(''Accept'', ''application/json''),
      (''WM_SEC.ACCESS_TOKEN'', token),
      (''WM_QOS.CORRELATION_ID'', ''walmart-mcp-server'')]"

definition missing_token :: "log_record list \<Rightarrow> outcome" where
  "missing_token l =
     \<lparr>envelope = error_dict ''Missing Walmart API token'',
      calls = [],
      logs = l @ [(ERROR, ''Could not get Walmart API token'')]\<rparr>"

section \<open>tools/search.py: the three operations\<close>

text \<open>
  Python checks no annotation at run time. A parameter whose value the body only tests
  and forwards (\<^verbatim>\<open>offset\<close>, \<^verbatim>\<open>sort\<close>, the prices, \<^verbatim>\<open>in_stock\<close>, \<^verbatim>\<open>category_id\<close>,
  \<^verbatim>\<open>radius\<close>, the category \<^verbatim>\<open>query\<close>) is therefore kept as the raw value, and the
  model does to it what Python does to any value. A parameter whose value the body orders
  (\<^verbatim>\<open>limit\<close>, in \<^verbatim>\<open>min\<close>) or renders into text (\<^verbatim>\<open>query\<close>, \<^verbatim>\<open>location\<close>,
  \<^verbatim>\<open>parent_id\<close>) is modelled at its declared type.
\<close>

subsection \<open>walmart_product_search\<close>

definition product_search_params ::
  "string \<Rightarrow> int \<Rightarrow> pyval \<Rightarrow> pyval \<Rightarrow> pyval \<Rightarrow> pyval \<Rightarrow> pyval \<Rightarrow> pyval
     \<Rightarrow> (string \<times> pyval) list" where
  "product_search_params query limit offset sort' min_price max_price in_stock category_id =
     [(''query'', PStr query), (''limit'', PInt (min limit 50)), (''offset'', offset)]
     @ (if truthy sort' \<and> sort' \<noteq> PStr ''relevance'' then [(''sort'', sort')] else [])
     @ (if min_price \<noteq> PNone then [(''minPrice'', min_price)] else [])
     @ (if max_price \<noteq> PNone then [(''maxPrice'', max_price)] else [])
     @ (if in_stock \<noteq> PNone then [(''inStock'', in_stock)] else [])
     @ (if truthy category_id then [(''categoryId'', category_id)] else [])"

definition product_search_request ::
  "string \<Rightarrow> string \<Rightarrow> int \<Rightarrow> pyval \<Rightarrow> pyval \<Rightarrow> pyval \<Rightarrow> pyval \<Rightarrow> pyval \<Rightarrow> pyval
     \<Rightarrow> request" where
  "product_search_request token query limit offset sort' min_price max_price in_stock category_id =
     \<lparr>url = ''https://api.walmart.com/v3/items/search'',
      headers = auth_headers token,
      params =
        product_search_params query limit offset sort' min_price max_price in_stock category_id\<rparr>"

definition walmart_product_search ::
  "string option \<Rightarrow> string option \<Rightarrow> backend
     \<Rightarrow> string \<Rightarrow> int \<Rightarrow> pyval \<Rightarrow> pyval \<Rightarrow> pyval \<Rightarrow> pyval \<Rightarrow> pyval \<Rightarrow> pyval \<Rightarrow> outcome" where
  "walmart_product_search ctx env b
       query limit offset sort' min_price max_price in_stock category_id =
     (case get_walmart_client ctx env of
        (tok, l0) \<Rightarrow>
          (case tok of
             None \<Rightarrow> missing_token l0
           | Some token \<Rightarrow>
               if token = [] then missing_token l0
               else
                 let req = product_search_request token
                             query limit offset sort' min_price max_price in_stock category_id;
                     l1 = l0 @ [(INFO, ''Sending Walmart product search request: '' @ query)];
                     l2 = l1 @ (if received b req
                                then [(INFO, ''Received Walmart product search response'')]
                                else [])
                 in (case attempt b req of
                       Inr body \<Rightarrow> \<lparr>envelope = body, calls = [req], logs = l2\<rparr>
                     | Inl e \<Rightarrow>
                         if is_request_exception e then
                           \<lparr>envelope = error_dict
                              (''Could not complete Walmart product search for query: '' @ query),
                            calls = [req],
                            logs = l2 @ [(ERROR, ''Walmart product search failed: '' @ str_exc e)]\<rparr>
                         else
                           \<lparr>envelope = error_dict
                              (''Unexpected error in Walmart product search: '' @ str_exc e),
                            calls = [req],
                            logs = l2 @ [(ERROR,
                              ''Unexpected error in Walmart product search: '' @ str_exc e)]\<rparr>)))"

subsection \<open>walmart_store_search\<close>

definition store_search_request :: "string \<Rightarrow> string \<Rightarrow> pyval \<Rightarrow> int \<Rightarrow> request" where
  "store_search_request token location radius limit =
     \<lparr>url = ''https://api.walmart.com/v3/stores'',
      headers = auth_headers token,
      params =
        [(''location'', PStr location), (''radius'', radius), (''limit'', PInt (min limit 20))]\<rparr>"

definition walmart_store_search ::
  "string option \<Rightarrow> string option \<Rightarrow> backend \<Rightarrow> string \<Rightarrow> pyval \<Rightarrow> int \<Rightarrow> outcome" where
  "walmart_store_search ctx env b location radius limit =
     (case get_walmart_client ctx env of
        (tok, l0) \<Rightarrow>
          (case tok of
             None \<Rightarrow> missing_token l0
           | Some token \<Rightarrow>
               if token = [] then missing_token l0
               else
                 let req = store_search_request token location radius limit;
                     l1 = l0 @ [(INFO,
                            ''Sending Walmart store search request for location: '' @ location)];
                     l2 = l1 @ (if received b req
                                then [(INFO, ''Received Walmart store search response'')]
                                else [])
                 in (case attempt b req of
                       Inr body \<Rightarrow> \<lparr>envelope = body, calls = [req], logs = l2\<rparr>
                     | Inl e \<Rightarrow>
                         if is_request_exception e then
                           \<lparr>envelope = error_dict
                              (''Could not complete Walmart store search for location: ''
                                 @ location),
                            calls = [req],
                            logs = l2 @ [(ERROR, ''Walmart store search failed: '' @ str_exc e)]\<rparr>
                         else
                           \<lparr>envelope = error_dict
                              (''Unexpected error in Walmart store search: '' @ str_exc e),
                            calls = [req],
                            logs = l2 @ [(ERROR,
                              ''Unexpected error in Walmart store search: '' @ str_exc e)]\<rparr>)))"

subsection \<open>walmart_category_search\<close>

definition category_search_request :: "string \<Rightarrow> pyval \<Rightarrow> string option \<Rightarrow> int \<Rightarrow> request" where
  "category_search_request token query parent_id limit =
     \<lparr>url = (if present parent_id
             then ''https://api.walmart.com/v3/items/categories/'' @ fmt_opt parent_id
             else ''https://api.walmart.com/v3/items/categories''),
      headers = auth_headers token,
      params = [(''limit'', PInt (min limit 50))]
               @ (if truthy query then [(''query'', query)] else [])\<rparr>"

definition walmart_category_search ::
  "string option \<Rightarrow> string option \<Rightarrow> backend \<Rightarrow> pyval \<Rightarrow> string option \<Rightarrow> int \<Rightarrow> outcome" where
  "walmart_category_search ctx env b query parent_id limit =
     (case get_walmart_client ctx env of
        (tok, l0) \<Rightarrow>
          (case tok of
             None \<Rightarrow> missing_token l0
           | Some token \<Rightarrow>
               if token = [] then missing_token l0
               else
                 let req = category_search_request token query parent_id limit;
                     l1 = l0 @ [(INFO, ''Sending Walmart category search request'')];
                     l2 = l1 @ (if received b req
                                then [(INFO, ''Received Walmart category search response'')]
                                else [])
                 in (case attempt b req of
                       Inr body \<Rightarrow> \<lparr>envelope = body, calls = [req], logs = l2\<rparr>
                     | Inl e \<Rightarrow>
                         if is_request_exception e then
                           \<lparr>envelope = error_dict ''Could not complete Walmart category search'',
                            calls = [req],
                            logs = l2 @ [(ERROR, ''Walmart category search failed: '' @ str_exc e)]\<rparr>
                         else
                           \<lparr>envelope = error_dict
                              (''Unexpected error in Walmart category search: '' @ str_exc e),
                            calls = [req],
                            logs = l2 @ [(ERROR,
                              ''Unexpected error in Walmart category search: '' @ str_exc e)]\<rparr>)))"

section \<open>server.py: the dispatcher\<close>

subsection \<open>Binding the argument mapping to a signature\<close>

text \<open>
  \<^verbatim>\<open>f(**arguments)\<close> binds by name before the body of \<^verbatim>\<open>f\<close> runs. The keys are
  matched against the parameter names in the order of the mapping, and the first key
  that is no parameter raises \<^verbatim>\<open>TypeError\<close>; once all keys are matched, a required
  parameter left without a value raises \<^verbatim>\<open>TypeError\<close>. Each of the three functions has
  at most one required parameter. The argument mapping is a dictionary, given here as
  its items in order; a dictionary holds no key twice.
\<close>

definition parameter_names :: "string \<Rightarrow> string list" where
  "parameter_names name =
     (if name = ''walmart_product_search'' then
        [''query'', ''limit'', ''offset'', ''sort'', ''min_price'', ''max_price'', ''in_stock'',
         ''category_id'']
      else if name = ''walmart_store_search'' then [''location'', ''radius'', ''limit'']
      else if name = ''walmart_category_search'' then [''query'', ''parent_id'', ''limit'']
      else [])"

definition required_parameter :: "string \<Rightarrow> string option" where
  "required_parameter name =
     (if name = ''walmart_product_search'' then Some ''query''
      else if name = ''walmart_store_search'' then Some ''location''
      else None)"

definition quoted :: "string \<Rightarrow> string" where
  "quoted s = [CHR 0x27] @ s @ [CHR 0x27]"

definition unexpected_keyword :: "string list \<Rightarrow> (string \<times> pyval) list \<Rightarrow> string option" where
  "unexpected_keyword names arguments = find (\<lambda>k. k \<notin> set names) (map fst arguments)"

definition bind_keywords :: "string \<Rightarrow> (string \<times> pyval) list \<Rightarrow> py_exception option" where
  "bind_keywords name arguments =
     (case unexpected_keyword (parameter_names name) arguments of
        Some k \<Rightarrow>
          Some (TypeError (name @ ''() got an unexpected keyword argument '' @ quoted k))
      | None \<Rightarrow>
          (case required_parameter name of
             None \<Rightarrow> None
           | Some p \<Rightarrow>
               if map_of arguments p = None then
                 Some (TypeError
                   (name @ ''() missing 1 required positional argument: '' @ quoted p))
               else None))"

text \<open>The value a parameter is bound to: the argument of that name, or the default.\<close>

definition arg :: "(string \<times> pyval) list \<Rightarrow> string \<Rightarrow> pyval \<Rightarrow> pyval" where
  "arg arguments p dflt = (case map_of arguments p of None \<Rightarrow> dflt | Some v \<Rightarrow> v)"

text \<open>
  The parameters modelled at their declared type read the raw value at that type. The
  result \<open>None\<close> says that the value is of another type: Python binds it all the same,
  and what the body then does with it is outside this model.
\<close>

fun as_str :: "pyval \<Rightarrow> string option" where
  "as_str (PStr s) = Some s"
| "as_str v = None"

fun as_int :: "pyval \<Rightarrow> int option" where
  "as_int (PInt n) = Some n"
| "as_int v = None"

fun as_opt_str :: "pyval \<Rightarrow> string option option" where
  "as_opt_str PNone = Some None"
| "as_opt_str (PStr s) = Some (Some s)"
| "as_opt_str v = None"

subsection \<open>call_tool\<close>

text \<open>
  The \<^verbatim>\<open>if\<close>/\<^verbatim>\<open>elif\<close> chain inside the \<^verbatim>\<open>try\<close> block: the exception raised there,
  or the result of the operation. \<open>None\<close> is the invocation outside the model (see
  above). \<^verbatim>\<open>query\<close> and \<^verbatim>\<open>location\<close> have no default: where they are read, the
  binding has already found them in the mapping.
\<close>

definition dispatch ::
  "string option \<Rightarrow> string option \<Rightarrow> backend \<Rightarrow> string \<Rightarrow> (string \<times> pyval) list
     \<Rightarrow> (py_exception + outcome) option" where
  "dispatch ctx env b name arguments =
     (if name = ''walmart_product_search'' then
        (case bind_keywords name arguments of
           Some e \<Rightarrow> Some (Inl e)
         | None \<Rightarrow>
             (case (as_str (arg arguments ''query'' PNone),
                    as_int (arg arguments ''limit'' (PInt 10))) of
                (Some query, Some limit) \<Rightarrow>
                  Some (Inr (walmart_product_search ctx env b query limit
                    (arg arguments ''offset'' (PInt 0))
                    (arg arguments ''sort'' (PStr ''relevance''))
                    (arg arguments ''min_price'' PNone)
                    (arg arguments ''max_price'' PNone)
                    (arg arguments ''in_stock'' PNone)
                    (arg arguments ''category_id'' PNone)))
              | _ \<Rightarrow> None))
      else if name = ''walmart_store_search'' then
        (case bind_keywords name arguments of
           Some e \<Rightarrow> Some (Inl e)
         | None \<Rightarrow>
             (case (as_str (arg arguments ''location'' PNone),
                    as_int (arg arguments ''limit'' (PInt 10))) of
                (Some location, Some limit) \<Rightarrow>
                  Some (Inr (walmart_store_search ctx env b location
                    (arg arguments ''radius'' (PInt 25)) limit))
              | _ \<Rightarrow> None))
      else if name = ''walmart_category_search'' then
        (case bind_keywords name arguments of
           Some e \<Rightarrow> Some (Inl e)
         | None \<Rightarrow>
             (case (as_opt_str (arg arguments ''parent_id'' PNone),
                    as_int (arg arguments ''limit'' (PInt 20))) of
                (Some parent_id, Some limit) \<Rightarrow>
                  Some (Inr (walmart_category_search ctx env b
                    (arg arguments ''query'' PNone) parent_id limit))
              | _ \<Rightarrow> None))
      else Some (Inl (ValueError (''Unknown tool: '' @ name))))"

text \<open>
  \<^verbatim>\<open>call_tool\<close> answers with one text content holding
  \<^verbatim>\<open>json.dumps(result, indent=2)\<close>, or \<^verbatim>\<open>json.dumps({"error": str(e)}, indent=2)\<close> when
  the \<^verbatim>\<open>try\<close> block raised; \<open>envelope\<close> is the dictionary that is serialised. The
  first log line renders the argument dictionary with Python's \<^verbatim>\<open>repr\<close>, which is the
  parameter \<open>repr_dict\<close>.
\<close>

definition call_tool ::
  "((string \<times> pyval) list \<Rightarrow> string) \<Rightarrow> string option \<Rightarrow> string option \<Rightarrow> backend
     \<Rightarrow> string \<Rightarrow> (string \<times> pyval) list \<Rightarrow> outcome option" where
  "call_tool repr_dict ctx env b name arguments =
     (let l0 = [(INFO, ''Calling tool: '' @ name @ '' with arguments: '' @ repr_dict arguments)]
      in case dispatch ctx env b name arguments of
           None \<Rightarrow> None
         | Some (Inr result) \<Rightarrow> Some (result\<lparr>logs := l0 @ logs result\<rparr>)
         | Some (Inl e) \<Rightarrow>
             Some \<lparr>envelope = error_dict (str_exc e),
                   calls = [],
                   logs = l0 @ [(ERROR, ''Error calling tool '' @ name @ '': '' @ str_exc e)]\<rparr>)"

section \<open>Concrete surroundings for the examples\<close>

text \<open>
  Backends that refuse the connection, answer with status 500, answer with status 300
  and a body, raise an exception of another class, and answer with status 200 and a
  body; and a stand-in for Python's rendering of the
  argument dictionary, on whose text no result depends.
\<close>

definition backend_down :: backend where
  "backend_down req = Inl (RequestException ''Connection refused'')"

definition backend_500 :: backend where
  "backend_500 req =
     Inr \<lparr>status_code = 500, http_error_msg = ''500 Server Error'', json = Inr (PDict [])\<rparr>"



definition backend_ok :: backend where
  "backend_ok req =
     Inr \<lparr>status_code = 200, http_error_msg = [], json = Inr (PDict [(''items'', PList [])])\<rparr>"

definition repr_keys :: "(string \<times> pyval) list \<Rightarrow> string" where
  "repr_keys arguments = concat (map fst arguments)"

section \<open>Auxiliary facts\<close>

lemma get_auth_token_cases:
  "fst (get_auth_token ctx env) =
     (if present ctx then Inr (fmt_opt ctx)
      else if present env then Inr (fmt_opt env)
      else Inl no_token)"
  by (cases ctx; cases env) (simp_all add: get_auth_token_def)

lemma get_walmart_client_cases:
  "fst (get_walmart_client ctx env) =
     (if present ctx then ctx else if present env then env else None)"
  by (cases ctx; cases env) (simp_all add: get_walmart_client_def get_auth_token_def no_token_def)

lemma client_token_nonempty:
  "fst (get_walmart_client ctx env) = Some token \<Longrightarrow> token \<noteq> []"
  by (cases ctx; cases env) (auto simp: get_walmart_client_cases split: if_splits)

lemma client_none_iff:
  "fst (get_walmart_client ctx env) = None \<longleftrightarrow>
     (ctx = None \<or> ctx = Some []) \<and> (env = None \<or> env = Some [])"
  by (cases ctx; cases env) (auto simp: get_walmart_client_cases split: if_splits)

lemma product_search_no_token:
  assumes "fst (get_walmart_client ctx env) = None"
  shows "envelope (walmart_product_search ctx env b q n off s mn mx st cat) =
           error_dict ''Missing Walmart API token''"
    and "calls (walmart_product_search ctx env b q n off s mn mx st cat) = []"
  using assms
  by (cases "get_walmart_client ctx env"; simp add: walmart_product_search_def missing_token_def)+

lemma store_search_no_token:
  assumes "fst (get_walmart_client ctx env) = None"
  shows "envelope (walmart_store_search ctx env b loc rad n) =
           error_dict ''Missing Walmart API token''"
    and "calls (walmart_store_search ctx env b loc rad n) = []"
  using assms
  by (cases "get_walmart_client ctx env"; simp add: walmart_store_search_def missing_token_def)+

lemma category_search_no_token:
  assumes "fst (get_walmart_client ctx env) = None"
  shows "envelope (walmart_category_search ctx env b q pid n) =
           error_dict ''Missing Walmart API token''"
    and "calls (walmart_category_search ctx env b q pid n) = []"
  using assms
  by (cases "get_walmart_client ctx env"; simp add: walmart_category_search_def missing_token_def)+

lemma product_search_with_token:
  assumes "fst (get_walmart_client ctx env) = Some token"
  shows "calls (walmart_product_search ctx env b q n off s mn mx st cat) =
           [product_search_request token q n off s mn mx st cat]"
    and "envelope (walmart_product_search ctx env b q n off s mn mx st cat) =
           (case attempt b (product_search_request token q n off s mn mx st cat) of
              Inr body \<Rightarrow> body
            | Inl e \<Rightarrow>
                if is_request_exception e
                then error_dict (''Could not complete Walmart product search for query: '' @ q)
                else error_dict (''Unexpected error in Walmart product search: '' @ str_exc e))"
  using assms client_token_nonempty[OF assms]
  by (cases "get_walmart_client ctx env";
      simp add: walmart_product_search_def Let_def split: sum.splits)+

lemma store_search_with_token:
  assumes "fst (get_walmart_client ctx env) = Some token"
  shows "calls (walmart_store_search ctx env b loc rad n) =
           [store_search_request token loc rad n]"
    and "envelope (walmart_store_search ctx env b loc rad n) =
           (case attempt b (store_search_request token loc rad n) of
              Inr body \<Rightarrow> body
            | Inl e \<Rightarrow>
                if is_request_exception e
                then error_dict (''Could not complete Walmart store search for location: '' @ loc)
                else error_dict (''Unexpected error in Walmart store search: '' @ str_exc e))"
  using assms client_token_nonempty[OF assms]
  by (cases "get_walmart_client ctx env";
      simp add: walmart_store_search_def Let_def split: sum.splits)+

lemma category_search_with_token:
  assumes "fst (get_walmart_client ctx env) = Some token"
  shows "calls (walmart_category_search ctx env b q pid n) =
           [category_search_request token q pid n]"
    and "envelope (walmart_category_search ctx env b q pid n) =
           (case attempt b (category_search_request token q pid n) of
              Inr body \<Rightarrow> body
            | Inl e \<Rightarrow>
                if is_request_exception e
                then error_dict ''Could not complete Walmart category search''
                else error_dict (''Unexpected error in Walmart category search: '' @ str_exc e))"
  using assms client_token_nonempty[OF assms]
  by (cases "get_walmart_client ctx env";
      simp add: walmart_category_search_def Let_def split: sum.splits)+




lemma client_env_only: "get_walmart_client None (Some (c # cs)) = (Some (c # cs), [])"
  by (simp add: get_walmart_client_def get_auth_token_def)

lemma bind_keywords_mismatch:
  assumes "(\<exists>k \<in> fst ` set arguments. k \<notin> set (parameter_names name))
           \<or> (\<exists>p. required_parameter name = Some p \<and> p \<notin> fst ` set arguments)"
  shows "\<exists>rest. bind_keywords name arguments = Some (TypeError (name @ ''()'' @ rest))"
proof (cases "unexpected_keyword (parameter_names name) arguments")
  case (Some k)
  then show ?thesis
    by (simp add: bind_keywords_def)
next
  case None
  then have "\<forall>k \<in> fst ` set arguments. k \<in> set (parameter_names name)"
    by (auto simp: unexpected_keyword_def find_None_iff)
  with assms obtain p where p: "required_parameter name = Some p" "p \<notin> fst ` set arguments"
    by blast
  then have "map_of arguments p = None"
    by (simp add: map_of_eq_None_iff)
  with None p show ?thesis
    by (simp add: bind_keywords_def)
qed

lemma dispatch_bind_error:
  assumes "name \<in> {''walmart_product_search'', ''walmart_store_search'',
                     ''walmart_category_search''}"
    and "bind_keywords name arguments = Some e"
  shows "dispatch ctx env b name arguments = Some (Inl e)"
proof -
  consider "name = ''walmart_product_search''" | "name = ''walmart_store_search''"
    | "name = ''walmart_category_search''"
    using assms(1) by blast
  then show ?thesis
  proof cases
    case 1
    with assms(2) show ?thesis by (simp add: dispatch_def)
  next
    case 2
    with assms(2) show ?thesis by (simp add: dispatch_def)
  next
    case 3
    with assms(2) show ?thesis by (simp add: dispatch_def)
  qed
qed

lemma call_tool_raised:
  assumes "dispatch ctx env b name arguments = Some (Inl e)"
  shows "call_tool repr_dict ctx env b name arguments =
           Some \<lparr>envelope = error_dict (str_exc e), calls = [],
                 logs = [(INFO, ''Calling tool: '' @ name @ '' with arguments: ''
                                  @ repr_dict arguments),
                         (ERROR, ''Error calling tool '' @ name @ '': '' @ str_exc e)]\<rparr>"
  using assms by (simp add: call_tool_def)

lemma tool_name_not_missing_token:
  assumes "name \<in> {''walmart_product_search'', ''walmart_store_search'',
                     ''walmart_category_search''}"
  shows "name @ rest \<noteq> ''Missing Walmart API token''"
  using assms by auto

lemma attempt_backend_down:
  "attempt backend_down req = Inl (RequestException ''Connection refused'')"
  by (simp add: attempt_def backend_down_def)

lemma attempt_backend_500:
  "attempt backend_500 req = Inl (RequestException ''500 Server Error'')"
  by (simp add: attempt_def backend_500_def raise_for_status_def)




lemma client_key: "fst (get_walmart_client None (Some ''key'')) = Some ''key''"
  by (simp add: client_env_only)

lemma call_tool_returned:
  assumes "dispatch ctx env b name arguments = Some (Inr result)"
  shows "call_tool repr_dict ctx env b name arguments =
           Some (result\<lparr>logs := [(INFO, ''Calling tool: '' @ name @ '' with arguments: ''
                                         @ repr_dict arguments)] @ logs result\<rparr>)"
  using assms by (simp add: call_tool_def)

lemma dispatch_empty_category_id:
  "dispatch ctx env b ''walmart_product_search''
     [(''query'', PStr ''tv''), (''category_id'', PStr [])] =
   Some (Inr (walmart_product_search ctx env b ''tv'' 10 (PInt 0) (PStr ''relevance'')
                PNone PNone PNone (PStr [])))"
  by (simp add: dispatch_def bind_keywords_def unexpected_keyword_def parameter_names_def
        required_parameter_def arg_def)

lemma dispatch_empty_parent_id:
  "dispatch ctx env b ''walmart_category_search''
     [(''query'', PStr []), (''parent_id'', PStr [])] =
   Some (Inr (walmart_category_search ctx env b (PStr []) (Some []) 20))"
  by (simp add: dispatch_def bind_keywords_def unexpected_keyword_def parameter_names_def
        required_parameter_def arg_def)

lemma dispatch_returned_cases:
  assumes "dispatch ctx env b name arguments = Some (Inr result)"
  shows "(\<exists>q n off s mn mx st cat.
            result = walmart_product_search ctx env b q n off s mn mx st cat)
       \<or> (\<exists>loc rad n. result = walmart_store_search ctx env b loc rad n)
       \<or> (\<exists>q pid n. result = walmart_category_search ctx env b q pid n)"
proof -
  consider "name = ''walmart_product_search''" | "name = ''walmart_store_search''"
    | "name = ''walmart_category_search''"
    | "name \<noteq> ''walmart_product_search''" "name \<noteq> ''walmart_store_search''"
      "name \<noteq> ''walmart_category_search''"
    by blast
  then show ?thesis
  proof cases
    case 1
    with assms have "\<exists>q n off s mn mx st cat.
            result = walmart_product_search ctx env b q n off s mn mx st cat"
      by (simp add: dispatch_def split: option.splits) blast
    then show ?thesis by blast
  next
    case 2
    with assms have "\<exists>loc rad n. result = walmart_store_search ctx env b loc rad n"
      by (simp add: dispatch_def split: option.splits) blast
    then show ?thesis by blast
  next
    case 3
    with assms have "\<exists>q pid n. result = walmart_category_search ctx env b q pid n"
      by (simp add: dispatch_def split: option.splits) blast
    then show ?thesis by blast
  next
    case 4
    with assms show ?thesis by (simp add: dispatch_def)
  qed
qed

lemma dispatch_missing_token:
  assumes "ctx = None \<or> ctx = Some []" and "env = None \<or> env = Some []"
    and "dispatch ctx env b name arguments = Some (Inr result)"
  shows "envelope result = error_dict ''Missing Walmart API token'' \<and> calls result = []"
proof -
  from assms(1,2) have none: "fst (get_walmart_client ctx env) = None"
    by (simp add: client_none_iff)
  from dispatch_returned_cases [OF assms(3)] show ?thesis
    by (auto simp: product_search_no_token [OF none] store_search_no_token [OF none]
          category_search_no_token [OF none])
qed

lemma dispatch_product_query_only:
  "dispatch ctx env b ''walmart_product_search'' [(''query'', PStr ''tv'')] =
   Some (Inr (walmart_product_search ctx env b ''tv'' 10 (PInt 0) (PStr ''relevance'')
                PNone PNone PNone PNone))"
  by (simp add: dispatch_def bind_keywords_def unexpected_keyword_def parameter_names_def
        required_parameter_def arg_def)

section \<open>Credential resolution\<close>

text \<open>
  Claim C6. Credential resolution returns the per-invocation context token when it is
  set and non-empty; otherwise it returns the environment default; it fails, with the
  \<^verbatim>\<open>RuntimeError\<close> that \<^verbatim>\<open>get_walmart_client\<close> turns into \<^verbatim>\<open>None\<close>, exactly when
  neither source yields a non-empty token, the context variable being unset or set to
  the empty string.
\<close>

theorem token_resolution_order:
  "(\<forall>t. ctx = Some t \<and> t \<noteq> [] \<longrightarrow> fst (get_auth_token ctx env) = Inr t)
   \<and> (\<forall>t. (ctx = None \<or> ctx = Some []) \<and> env = Some t \<and> t \<noteq> []
          \<longrightarrow> fst (get_auth_token ctx env) = Inr t)
   \<and> (fst (get_auth_token ctx env) = Inl no_token
        \<longleftrightarrow> (ctx = None \<or> ctx = Some []) \<and> (env = None \<or> env = Some []))
   \<and> (fst (get_walmart_client ctx env) = None
        \<longleftrightarrow> (ctx = None \<or> ctx = Some []) \<and> (env = None \<or> env = Some []))"
  by (cases ctx; cases env) (auto simp: get_auth_token_cases client_none_iff)

theorem token_resolution_order_witness:
  "fst (get_auth_token (Some ''caller'') (Some ''fallback'')) = Inr ''caller''
   \<and> fst (get_auth_token (Some []) (Some ''fallback'')) = Inr ''fallback''
   \<and> fst (get_auth_token None (Some ''fallback'')) = Inr ''fallback''
   \<and> fst (get_auth_token None None) = Inl no_token
   \<and> fst (get_auth_token (Some []) (Some [])) = Inl no_token
   \<and> fst (get_walmart_client (Some []) None) = None"
  using token_resolution_order [of "Some ''caller''" "Some ''fallback''"]
        token_resolution_order [of "Some []" "Some ''fallback''"]
        token_resolution_order [of None "Some ''fallback''"]
        token_resolution_order [of None None]
        token_resolution_order [of "Some []" "Some []"]
        token_resolution_order [of "Some []" None]
  by simp

text \<open>
  Claim C1. When no credential is resolvable (the context variable unset or empty, the
  environment variable unset or empty), each of the three operations returns
  \<^verbatim>\<open>{"error": "Missing Walmart API token"}\<close> and makes no outbound call, whatever its
  arguments and whatever the backend would answer; and so does every invocation that the
  dispatcher hands to an operation.
\<close>

theorem missing_token_short_circuit:
  assumes "ctx = None \<or> ctx = Some []" and "env = None \<or> env = Some []"
  shows "envelope (walmart_product_search ctx env b query limit offset sort' min_price max_price
                     in_stock category_id) = error_dict ''Missing Walmart API token''
       \<and> calls (walmart_product_search ctx env b query limit offset sort' min_price max_price
                     in_stock category_id) = []
       \<and> envelope (walmart_store_search ctx env b location radius limit) =
           error_dict ''Missing Walmart API token''
       \<and> calls (walmart_store_search ctx env b location radius limit) = []
       \<and> envelope (walmart_category_search ctx env b cquery parent_id limit) =
           error_dict ''Missing Walmart API token''
       \<and> calls (walmart_category_search ctx env b cquery parent_id limit) = []
       \<and> (\<forall>result. dispatch ctx env b name arguments = Some (Inr result) \<longrightarrow>
            (\<exists>out. call_tool repr_dict ctx env b name arguments = Some out
               \<and> envelope out = error_dict ''Missing Walmart API token''
               \<and> calls out = []))"
proof -
  from assms have "fst (get_walmart_client ctx env) = None"
    by (simp add: client_none_iff)
  then have "envelope (walmart_product_search ctx env b query limit offset sort' min_price max_price
                     in_stock category_id) = error_dict ''Missing Walmart API token''
       \<and> calls (walmart_product_search ctx env b query limit offset sort' min_price max_price
                     in_stock category_id) = []
       \<and> envelope (walmart_store_search ctx env b location radius limit) =
           error_dict ''Missing Walmart API token''
       \<and> calls (walmart_store_search ctx env b location radius limit) = []
       \<and> envelope (walmart_category_search ctx env b cquery parent_id limit) =
           error_dict ''Missing Walmart API token''
       \<and> calls (walmart_category_search ctx env b cquery parent_id limit) = []"
    by (simp add: product_search_no_token store_search_no_token category_search_no_token)
  moreover have "\<exists>out. call_tool repr_dict ctx env b name arguments = Some out
               \<and> envelope out = error_dict ''Missing Walmart API token''
               \<and> calls out = []"
    if "dispatch ctx env b name arguments = Some (Inr result)" for result
    using dispatch_missing_token [OF assms that] call_tool_returned [OF that, of repr_dict]
    by simp
  ultimately show ?thesis
    by blast
qed

theorem missing_token_short_circuit_witness:
  "envelope (walmart_product_search None None backend_ok ''tv'' 10 (PInt 0) (PStr ''relevance'')
               PNone PNone PNone PNone) = error_dict ''Missing Walmart API token''
   \<and> calls (walmart_product_search None None backend_ok ''tv'' 10 (PInt 0) (PStr ''relevance'')
               PNone PNone PNone PNone) = []
   \<and> envelope (walmart_store_search (Some []) None backend_ok ''72712'' (PInt 25) 10) =
       error_dict ''Missing Walmart API token''
   \<and> calls (walmart_store_search (Some []) None backend_ok ''72712'' (PInt 25) 10) = []
   \<and> envelope (walmart_category_search None (Some []) backend_ok PNone None 20) =
       error_dict ''Missing Walmart API token''
   \<and> calls (walmart_category_search None (Some []) backend_ok PNone None 20) = []
   \<and> (\<exists>out. call_tool repr_keys None None backend_ok ''walmart_product_search''
               [(''query'', PStr ''tv'')] = Some out
          \<and> envelope out = error_dict ''Missing Walmart API token''
          \<and> calls out = [])"
  using missing_token_short_circuit [of None None backend_ok "''tv''" 10 "PInt 0"
          "PStr ''relevance''" PNone PNone PNone PNone "''72712''" "PInt 25" PNone None
          "''walmart_product_search''" "[(''query'', PStr ''tv'')]" repr_keys]
        missing_token_short_circuit [of "Some []" None backend_ok "''tv''" 10 "PInt 0"
          "PStr ''relevance''" PNone PNone PNone PNone "''72712''" "PInt 25" PNone None]
        missing_token_short_circuit [of None "Some []" backend_ok "''tv''" 20 "PInt 0"
          "PStr ''relevance''" PNone PNone PNone PNone "''72712''" "PInt 25" PNone None]
  by (simp add: dispatch_product_query_only)

section \<open>The dispatcher's own failures\<close>

text \<open>
  Claim C2. For an operation name that is none of the three registered names, the
  dispatcher answers \<^verbatim>\<open>{"error": "Unknown tool: <name>"}\<close>, the name interpolated,
  and makes no outbound call.
\<close>

theorem unknown_tool_envelope:
  assumes "name \<notin> {''walmart_product_search'', ''walmart_store_search'',
                     ''walmart_category_search''}"
  shows "\<exists>out. call_tool repr_dict ctx env b name arguments = Some out
           \<and> envelope out = error_dict (''Unknown tool: '' @ name)
           \<and> calls out = []"
  using assms by (simp add: call_tool_def dispatch_def)

theorem unknown_tool_envelope_witness:
  "\<exists>out. call_tool repr_keys None (Some ''key'') backend_ok ''walmart_price_check''
            [(''query'', PStr ''tv'')] = Some out
         \<and> envelope out = error_dict ''Unknown tool: walmart_price_check''
         \<and> calls out = []"
  using unknown_tool_envelope [of "''walmart_price_check''" repr_keys None "Some ''key''"
          backend_ok "[(''query'', PStr ''tv'')]"]
  by simp

text \<open>
  Claim C10. An invocation of a registered operation whose argument mapping does not
  match the operation's parameters (a key that is no parameter, or the required
  parameter left out) is answered by the dispatcher with \<^verbatim>\<open>{"error": <message>}\<close>,
  the message being that of the \<^verbatim>\<open>TypeError\<close> raised by the binding, and no outbound
  call is made. The answer does not depend on the credential: binding fails before the
  body of the operation, and with it the credential check, runs, so the message is never
  the missing-token one.
\<close>

theorem argument_mismatch_envelope:
  assumes "name \<in> {''walmart_product_search'', ''walmart_store_search'',
                     ''walmart_category_search''}"
    and "(\<exists>k \<in> fst ` set arguments. k \<notin> set (parameter_names name))
         \<or> (\<exists>p. required_parameter name = Some p \<and> p \<notin> fst ` set arguments)"
  shows "\<exists>msg out. bind_keywords name arguments = Some (TypeError msg)
           \<and> call_tool repr_dict ctx env b name arguments = Some out
           \<and> envelope out = error_dict msg
           \<and> calls out = []
           \<and> msg \<noteq> ''Missing Walmart API token''"
proof -
  from bind_keywords_mismatch [OF assms(2)]
  obtain rest where bind: "bind_keywords name arguments = Some (TypeError (name @ ''()'' @ rest))"
    by blast
  let ?msg = "name @ ''()'' @ rest"
  have "dispatch ctx env b name arguments = Some (Inl (TypeError ?msg))"
    using assms(1) bind by (rule dispatch_bind_error)
  then have "call_tool repr_dict ctx env b name arguments =
           Some \<lparr>envelope = error_dict (str_exc (TypeError ?msg)), calls = [],
                 logs = [(INFO, ''Calling tool: '' @ name @ '' with arguments: ''
                                  @ repr_dict arguments),
                         (ERROR, ''Error calling tool '' @ name @ '': ''
                                  @ str_exc (TypeError ?msg))]\<rparr>"
    by (rule call_tool_raised)
  moreover have "?msg \<noteq> ''Missing Walmart API token''"
    using assms(1) by (rule tool_name_not_missing_token)
  ultimately show ?thesis
    using bind by simp
qed

theorem argument_mismatch_envelope_witness:
  "(\<exists>msg out. bind_keywords ''walmart_product_search'' [(''limit'', PInt 5)] = Some (TypeError msg)
       \<and> call_tool repr_keys None None backend_ok ''walmart_product_search'' [(''limit'', PInt 5)]
           = Some out
       \<and> envelope out = error_dict msg \<and> calls out = []
       \<and> msg \<noteq> ''Missing Walmart API token'')
   \<and> (\<exists>msg out. bind_keywords ''walmart_category_search'' [(''colour'', PStr ''red'')]
           = Some (TypeError msg)
       \<and> call_tool repr_keys None None backend_ok ''walmart_category_search''
           [(''colour'', PStr ''red'')] = Some out
       \<and> envelope out = error_dict msg \<and> calls out = []
       \<and> msg \<noteq> ''Missing Walmart API token'')"
proof -
  have n1: "''walmart_product_search'' \<in> {''walmart_product_search'', ''walmart_store_search'',
                     ''walmart_category_search''}"
    by simp
  have m1: "(\<exists>k \<in> fst ` set [(''limit'', PInt 5)].
               k \<notin> set (parameter_names ''walmart_product_search''))
         \<or> (\<exists>p. required_parameter ''walmart_product_search'' = Some p
                \<and> p \<notin> fst ` set [(''limit'', PInt 5)])"
    by (simp add: required_parameter_def)
  have n2: "''walmart_category_search'' \<in> {''walmart_product_search'', ''walmart_store_search'',
                     ''walmart_category_search''}"
    by simp
  have m2: "(\<exists>k \<in> fst ` set [(''colour'', PStr ''red'')].
               k \<notin> set (parameter_names ''walmart_category_search''))
         \<or> (\<exists>p. required_parameter ''walmart_category_search'' = Some p
                \<and> p \<notin> fst ` set [(''colour'', PStr ''red'')])"
    by (simp add: parameter_names_def)
  show ?thesis
    using argument_mismatch_envelope [OF n1 m1, of repr_keys None None backend_ok]
          argument_mismatch_envelope [OF n2 m2, of repr_keys None None backend_ok]
    by blast
qed

section \<open>Request building\<close>

text \<open>
  Claim C3. For every integer \<^verbatim>\<open>limit\<close>, each operation sends the limit clamped to its
  cap and rejects none: with a token at hand, the one outbound call carries
  \<^verbatim>\<open>min(limit, 50)\<close> for the product search, \<^verbatim>\<open>min(limit, 20)\<close> for the store search
  and \<^verbatim>\<open>min(limit, 50)\<close> for the category search.
\<close>

theorem limit_is_clamped:
  assumes "fst (get_walmart_client ctx env) = Some token"
  shows "(\<exists>req. calls (walmart_product_search ctx env b query limit offset sort' min_price
                         max_price in_stock category_id) = [req]
               \<and> map_of (params req) ''limit'' = Some (PInt (min limit 50)))
       \<and> (\<exists>req. calls (walmart_store_search ctx env b location radius limit) = [req]
               \<and> map_of (params req) ''limit'' = Some (PInt (min limit 20)))
       \<and> (\<exists>req. calls (walmart_category_search ctx env b cquery parent_id limit) = [req]
               \<and> map_of (params req) ''limit'' = Some (PInt (min limit 50)))"
  using assms
  by (simp add: product_search_with_token store_search_with_token category_search_with_token
        product_search_request_def product_search_params_def store_search_request_def
        category_search_request_def)

theorem limit_is_clamped_witness:
  "(\<exists>req. calls (walmart_product_search None (Some ''key'') backend_ok ''tv'' 999 (PInt 0)
                   (PStr ''relevance'') PNone PNone PNone PNone) = [req]
         \<and> map_of (params req) ''limit'' = Some (PInt 50))
   \<and> (\<exists>req. calls (walmart_store_search None (Some ''key'') backend_ok ''72712'' (PInt 25) 999)
               = [req]
         \<and> map_of (params req) ''limit'' = Some (PInt 20))
   \<and> (\<exists>req. calls (walmart_category_search None (Some ''key'') backend_ok PNone None 7) = [req]
         \<and> map_of (params req) ''limit'' = Some (PInt 7))"
  using limit_is_clamped [OF client_key, of backend_ok "''tv''" 999 "PInt 0" "PStr ''relevance''"
          PNone PNone PNone PNone "''72712''" "PInt 25" PNone None]
        limit_is_clamped [OF client_key, of backend_ok "''tv''" 7 "PInt 0" "PStr ''relevance''"
          PNone PNone PNone PNone "''72712''" "PInt 25" PNone None]
  by simp

section \<open>Faults of the outbound call\<close>




section \<open>Optional filters and the category endpoint\<close>

text \<open>
  Claim C4, as stated, says that \<^verbatim>\<open>category_id\<close> is in the outbound query exactly when
  it was supplied. The code tests \<^verbatim>\<open>if category_id:\<close>, so a \<^verbatim>\<open>category_id\<close> supplied
  as the empty string is left out: the product search below was given
  \<^verbatim>\<open>category_id=""\<close> and its one outbound call has no \<^verbatim>\<open>categoryId\<close> parameter.
\<close>

theorem empty_category_id_counterexample:
  "calls (walmart_product_search None (Some ''key'') backend_ok ''tv'' 10 (PInt 0)
            (PStr ''relevance'') PNone PNone PNone (PStr [])) =
     [\<lparr>url = ''https://api.walmart.com/v3/items/search'',
       headers = auth_headers ''key'',
       params = [(''query'', PStr ''tv''), (''limit'', PInt 10), (''offset'', PInt 0)]\<rparr>]
   \<and> PStr [] \<noteq> PNone"
  by (simp add: product_search_with_token [OF client_key] product_search_request_def
        product_search_params_def)

text \<open>
  Claim C4, amended. With a token at hand the product search makes one outbound call, and
  each optional filter is in its query exactly as follows: \<^verbatim>\<open>sort\<close> when its value is
  true in Python's sense (for a string: non-empty) and differs from \<^verbatim>\<open>"relevance"\<close>, so
  that \<^verbatim>\<open>"relevance"\<close> is left out and every other enumerated value is sent verbatim;
  \<^verbatim>\<open>minPrice\<close>, \<^verbatim>\<open>maxPrice\<close> and \<^verbatim>\<open>inStock\<close> when the value is not \<^verbatim>\<open>None\<close>;
  \<^verbatim>\<open>categoryId\<close> when the value is true in Python's sense, that is supplied and
  non-empty. A filter that is sent carries the value it was given.
\<close>

theorem optional_filters_sent:
  assumes "fst (get_walmart_client ctx env) = Some token"
  shows "\<exists>req. calls (walmart_product_search ctx env b query limit offset sort' min_price
                        max_price in_stock category_id) = [req]
           \<and> map_of (params req) ''sort'' =
               (if truthy sort' \<and> sort' \<noteq> PStr ''relevance'' then Some sort' else None)
           \<and> map_of (params req) ''minPrice'' =
               (if min_price \<noteq> PNone then Some min_price else None)
           \<and> map_of (params req) ''maxPrice'' =
               (if max_price \<noteq> PNone then Some max_price else None)
           \<and> map_of (params req) ''inStock'' =
               (if in_stock \<noteq> PNone then Some in_stock else None)
           \<and> map_of (params req) ''categoryId'' =
               (if truthy category_id then Some category_id else None)"
  using assms
  by (simp add: product_search_with_token product_search_request_def product_search_params_def)

theorem optional_filters_sent_witness:
  "(\<exists>req. calls (walmart_product_search None (Some ''key'') backend_ok ''tv'' 10 (PInt 0)
                   (PStr ''price_low'') (PFloat 0) PNone (PBool False) (PStr ''3944'')) = [req]
         \<and> map_of (params req) ''sort'' = Some (PStr ''price_low'')
         \<and> map_of (params req) ''minPrice'' = Some (PFloat 0)
         \<and> map_of (params req) ''maxPrice'' = None
         \<and> map_of (params req) ''inStock'' = Some (PBool False)
         \<and> map_of (params req) ''categoryId'' = Some (PStr ''3944''))
   \<and> (\<exists>req. calls (walmart_product_search None (Some ''key'') backend_ok ''tv'' 10 (PInt 0)
                   (PStr ''relevance'') PNone PNone PNone PNone) = [req]
         \<and> map_of (params req) ''sort'' = None
         \<and> map_of (params req) ''minPrice'' = None
         \<and> map_of (params req) ''maxPrice'' = None
         \<and> map_of (params req) ''inStock'' = None
         \<and> map_of (params req) ''categoryId'' = None)"
  using optional_filters_sent [OF client_key, of backend_ok "''tv''" 10 "PInt 0"
          "PStr ''price_low''" "PFloat 0" PNone "PBool False" "PStr ''3944''"]
        optional_filters_sent [OF client_key, of backend_ok "''tv''" 10 "PInt 0"
          "PStr ''relevance''" PNone PNone PNone PNone]
  by simp

text \<open>
  Claim C7, as stated, says that a supplied \<^verbatim>\<open>parent_id\<close> selects the
  categories-by-parent endpoint and that a supplied \<^verbatim>\<open>query\<close> is sent. The code tests
  \<^verbatim>\<open>if parent_id:\<close> and \<^verbatim>\<open>if query:\<close>: the category search below was given
  \<^verbatim>\<open>parent_id=""\<close> and \<^verbatim>\<open>query=""\<close>, and its one outbound call goes to the flat
  endpoint, with no \<^verbatim>\<open>query\<close> parameter.
\<close>

theorem empty_parent_id_counterexample:
  "calls (walmart_category_search None (Some ''key'') backend_ok (PStr []) (Some []) 20) =
     [\<lparr>url = ''https://api.walmart.com/v3/items/categories'',
       headers = auth_headers ''key'',
       params = [(''limit'', PInt 20)]\<rparr>]"
  by (simp add: category_search_with_token [OF client_key] category_search_request_def)

text \<open>
  Claim C7, amended. With a token at hand the category search makes one outbound call.
  If \<^verbatim>\<open>parent_id\<close> is supplied and non-empty, the call goes to the categories-by-parent
  endpoint, the parent id being the last segment of the path; if it is \<^verbatim>\<open>None\<close> or
  empty, to the flat categories endpoint. In either case \<^verbatim>\<open>query\<close> is sent as a query
  parameter exactly when its value is true in Python's sense, that is supplied and
  non-empty.
\<close>

theorem category_endpoint_selection:
  assumes "fst (get_walmart_client ctx env) = Some token"
  shows "\<exists>req. calls (walmart_category_search ctx env b cquery parent_id limit) = [req]
           \<and> (\<forall>p. parent_id = Some p \<and> p \<noteq> [] \<longrightarrow>
                 url req = ''https://api.walmart.com/v3/items/categories/'' @ p)
           \<and> (parent_id = None \<or> parent_id = Some [] \<longrightarrow>
                 url req = ''https://api.walmart.com/v3/items/categories'')
           \<and> map_of (params req) ''query'' = (if truthy cquery then Some cquery else None)"
  using assms
  by (auto simp: category_search_with_token category_search_request_def)

theorem category_endpoint_selection_witness:
  "(\<exists>req. calls (walmart_category_search None (Some ''key'') backend_ok (PStr ''toys'')
                   (Some ''123'') 20) = [req]
         \<and> url req = ''https://api.walmart.com/v3/items/categories/123''
         \<and> map_of (params req) ''query'' = Some (PStr ''toys''))
   \<and> (\<exists>req. calls (walmart_category_search None (Some ''key'') backend_ok PNone None 20) = [req]
         \<and> url req = ''https://api.walmart.com/v3/items/categories''
         \<and> map_of (params req) ''query'' = None)"
  using category_endpoint_selection [OF client_key, of backend_ok "PStr ''toys''" "Some ''123''" 20]
        category_endpoint_selection [OF client_key, of backend_ok PNone None 20]
  by simp

section \<open>Faults that are no transport faults\<close>




end
